theory Spec2Isabelle
  imports Main "HOL-Library.Word"
begin

unbundle bit_operations_syntax

section \<open>The SSH front end of the game server (server/server.go)\<close>

text \<open>
  The development embeds \<^verbatim>\<open>server.go\<close>: the constructor \<^verbatim>\<open>NewServer\<close>, the
  per-connection handler \<^verbatim>\<open>handle\<close> with the two goroutines it starts (the one
  that rejects further channel offers and the one that serves channel requests), and
  \<^verbatim>\<open>parseDims\<close>.

  Conventions of the embedding.
  \<^item> A Go \<^verbatim>\<open>string\<close> is a sequence of bytes, and so is an Isabelle \<open>string\<close>
    (a list of 8-bit \<open>char\<close>s). A \<^verbatim>\<open>[]byte\<close> payload is a list of 8-bit words,
    because the code does \<^verbatim>\<open>uint8\<close> arithmetic on one of its bytes.
  \<^item> A run-time panic of Go (index out of range, slice bounds out of range, method call
    on a nil interface) is a value \<open>Inl p\<close> of a sum type; nothing is read out of range
    silently.
  \<^item> A Go channel that is ranged over is the finite list of the values it delivers before
    the transport closes it. A channel variable that may be \<^verbatim>\<open>nil\<close> is an \<open>option\<close>.
  \<^item> Each goroutine is a function from the stream it consumes to the list of effects it
    performs, in program order. The interleaving of different goroutines is not modelled.
  \<^item> Log output is not modelled.
\<close>

subsection \<open>Panics, indexing and slicing\<close>

datatype panic = IndexOutOfRange | SliceBoundsOutOfRange | NilDereference

type_synonym byte = "8 word"

text \<open>\<^verbatim>\<open>xs[i]\<close>: Go panics when \<open>i\<close> is not below \<^verbatim>\<open>len(xs)\<close>.\<close>

definition index :: "'a list \<Rightarrow> nat \<Rightarrow> panic + 'a" where
  "index xs i = (if i < length xs then Inr (xs ! i) else Inl IndexOutOfRange)"

text \<open>\<^verbatim>\<open>xs[lo:]\<close>: Go panics when \<open>lo\<close> exceeds \<^verbatim>\<open>len(xs)\<close>.\<close>

definition sliceFrom :: "'a list \<Rightarrow> nat \<Rightarrow> panic + 'a list" where
  "sliceFrom xs lo = (if lo \<le> length xs then Inr (drop lo xs) else Inl SliceBoundsOutOfRange)"

text \<open>
  \<^verbatim>\<open>xs[:hi]\<close>: Go panics when \<open>hi\<close> exceeds \<^verbatim>\<open>cap(xs)\<close>. The capacity of a freshly
  converted slice is not fixed by the language; the model takes the least it can be,
  \<^verbatim>\<open>len(xs)\<close>, so that it panics whenever Go may.
\<close>

definition sliceTo :: "'a list \<Rightarrow> nat \<Rightarrow> panic + 'a list" where
  "sliceTo xs hi = (if hi \<le> length xs then Inr (take hi xs) else Inl SliceBoundsOutOfRange)"

subsection \<open>parseDims\<close>

record resize =
  width :: "32 word"
  height :: "32 word"

text \<open>
  \<^verbatim>\<open>binary.BigEndian.Uint32(b)\<close> of the Go library: it reads \<^verbatim>\<open>b[3]\<close> first, as a
  bounds check, and then combines \<^verbatim>\<open>b[0..3]\<close>, most significant byte first.
\<close>

definition Uint32 :: "byte list \<Rightarrow> panic + 32 word" where
  "Uint32 b =
     (if length b < 4 then Inl IndexOutOfRange
      else Inr (ucast (b ! 3) OR push_bit 8 (ucast (b ! 2)) OR
                push_bit 16 (ucast (b ! 1)) OR push_bit 24 (ucast (b ! 0))))"

definition parseDims :: "byte list \<Rightarrow> panic + resize" where
  "parseDims b =
     (if length b < 8 then Inr \<lparr>width = 0, height = 0\<rparr>
      else case Uint32 b of
             Inl e \<Rightarrow> Inl e
           | Inr w \<Rightarrow>
               (case sliceFrom b 4 of
                  Inl e \<Rightarrow> Inl e
                | Inr b4 \<Rightarrow>
                    (case Uint32 b4 of
                       Inl e \<Rightarrow> Inl e
                     | Inr h \<Rightarrow> Inr \<lparr>width = w, height = h\<rparr>)))"

subsection \<open>The request loop of an admitted channel\<close>

text \<open>An \<^verbatim>\<open>ssh.Request\<close>: its type and its payload.\<close>

record Request =
  Type :: string
  Payload :: "byte list"

text \<open>
  What the loop does for a request: it sends a resize event on \<^verbatim>\<open>p.resizes\<close>, or it
  calls \<^verbatim>\<open>r.Reply(ok, nil)\<close>.
\<close>

datatype reqEffect = Resize resize | Reply bool

text \<open>
  The body of the loop \<^verbatim>\<open>for r := range chanReqs\<close>, for one request. In the
  \<^verbatim>\<open>pty-req\<close> case \<^verbatim>\<open>strlen\<close> is a \<^verbatim>\<open>byte\<close>, so \<^verbatim>\<open>strlen+4\<close> is computed modulo
  256; the resize event is sent before the reply. The \<^verbatim>\<open>window-change\<close> case ends
  with \<^verbatim>\<open>continue\<close>, before the reply.
\<close>

definition serve :: "Request \<Rightarrow> panic + reqEffect list" where
  "serve r =
     (if Type r = ''shell'' then Inr [Reply (length (Payload r) = 0)]
      else if Type r = ''pty-req'' then
        (case index (Payload r) 3 of
           Inl e \<Rightarrow> Inl e
         | Inr strlen \<Rightarrow>
             (case sliceFrom (Payload r) (unat (strlen + 4)) of
                Inl e \<Rightarrow> Inl e
              | Inr b \<Rightarrow>
                  (case parseDims b of
                     Inl e \<Rightarrow> Inl e
                   | Inr d \<Rightarrow> Inr [Resize d, Reply True])))
      else if Type r = ''window-change'' then
        (case parseDims (Payload r) of
           Inl e \<Rightarrow> Inl e
         | Inr d \<Rightarrow> Inr [Resize d])
      else Inr [Reply False])"

text \<open>
  The loop over the requests of the channel. Every effect is tagged with the position of
  its request in the stream. A panic in the body is not recovered: it ends the loop (and
  the process), and the requests after it are not served.
\<close>

fun dispatchLoop :: "nat \<Rightarrow> Request list \<Rightarrow> (nat \<times> reqEffect) list \<times> panic option" where
  "dispatchLoop i [] = ([], None)"
| "dispatchLoop i (r # rs) =
     (case serve r of
        Inl e \<Rightarrow> ([], Some e)
      | Inr es \<Rightarrow>
          (case dispatchLoop (Suc i) rs of
             (t, res) \<Rightarrow> (map (Pair i) es @ t, res)))"

subsection \<open>Strings, runes and the name filter\<close>

text \<open>
  A \<^verbatim>\<open>rune\<close> is a Unicode code point. The functions of this subsection are the
  Go library's (\<^verbatim>\<open>unicode/utf8\<close> and \<^verbatim>\<open>regexp\<close>), written out because
  \<^verbatim>\<open>handle\<close> measures a name once in bytes and once in runes.
\<close>

type_synonym rune = nat

text \<open>\<^verbatim>\<open>utf8.RuneError\<close>, U+FFFD: what a byte that starts no valid encoding decodes to.\<close>

definition RuneError :: rune where
  "RuneError = 65533"

text \<open>A continuation byte: \<^verbatim>\<open>0x80 .. 0xBF\<close>.\<close>

definition cont :: "nat \<Rightarrow> bool" where
  "cont b = (128 \<le> b \<and> b \<le> 191)"

text \<open>
  \<^verbatim>\<open>utf8.DecodeRune\<close> on byte values: the first rune and its width in bytes. Overlong
  encodings, surrogates and values above U+10FFFF are invalid, and an invalid or
  truncated encoding is \<open>RuneError\<close> of width 1.
\<close>

fun DecodeRune :: "nat list \<Rightarrow> rune \<times> nat" where
  "DecodeRune [] = (RuneError, 0)"
| "DecodeRune (b0 # bs) =
     (if b0 < 128 then (b0, 1)
      else if 194 \<le> b0 \<and> b0 \<le> 223 then
        (case bs of
           b1 # _ \<Rightarrow>
             if cont b1 then ((b0 mod 32) * 64 + b1 mod 64, 2) else (RuneError, 1)
         | _ \<Rightarrow> (RuneError, 1))
      else if 224 \<le> b0 \<and> b0 \<le> 239 then
        (case bs of
           b1 # b2 # _ \<Rightarrow>
             if (if b0 = 224 then 160 else 128) \<le> b1 \<and> b1 \<le> (if b0 = 237 then 159 else 191)
                \<and> cont b2
             then ((b0 mod 16) * 4096 + (b1 mod 64) * 64 + b2 mod 64, 3)
             else (RuneError, 1)
         | _ \<Rightarrow> (RuneError, 1))
      else if 240 \<le> b0 \<and> b0 \<le> 244 then
        (case bs of
           b1 # b2 # b3 # _ \<Rightarrow>
             if (if b0 = 240 then 144 else 128) \<le> b1 \<and> b1 \<le> (if b0 = 244 then 143 else 191)
                \<and> cont b2 \<and> cont b3
             then ((b0 mod 8) * 262144 + (b1 mod 64) * 4096 + (b2 mod 64) * 64 + b3 mod 64, 4)
             else (RuneError, 1)
         | _ \<Rightarrow> (RuneError, 1))
      else (RuneError, 1))"

definition DecodeRuneInString :: "string \<Rightarrow> rune \<times> nat" where
  "DecodeRuneInString s = DecodeRune (map of_char s)"

text \<open>
  The word characters of Go's regexp syntax, \<^verbatim>\<open>[0-9A-Za-z_]\<close>: ASCII only, whatever
  Unicode says of a letter.
\<close>

definition isWord :: "rune \<Rightarrow> bool" where
  "isWord r = ((48 \<le> r \<and> r \<le> 57) \<or> (65 \<le> r \<and> r \<le> 90) \<or> r = 95 \<or> (97 \<le> r \<and> r \<le> 122))"

text \<open>
  \<^verbatim>\<open>filtername\<close>, the compiled expression for one non-word character: the runes it
  matches.
\<close>

definition filtername :: "rune \<Rightarrow> bool" where
  "filtername r = (\<not> isWord r)"

text \<open>Decoding consumes at least one byte of a non-empty string; the loops below end.\<close>

lemma DecodeRune_width:
  "DecodeRune (b # bs) = (r, w) \<Longrightarrow> 1 \<le> w \<and> w \<le> Suc (length bs)"
  by (auto split: if_splits list.splits)

lemma DecodeRuneInString_width:
  "DecodeRuneInString (c # cs) = (r, w) \<Longrightarrow> 1 \<le> w \<and> w \<le> Suc (length cs)"
  using DecodeRune_width [of "of_char c" "map of_char cs" r w]
  by (simp add: DecodeRuneInString_def)

text \<open>
  \<^verbatim>\<open>re.ReplaceAllString(src, repl)\<close> for an expression \<open>re\<close> that matches exactly one
  rune of a class: the input is scanned rune by rune (each byte of an invalid sequence
  counts as \<open>RuneError\<close>), a matching rune is replaced by \<open>repl\<close>, and the bytes of
  the others are copied.
\<close>

function ReplaceAllString :: "(rune \<Rightarrow> bool) \<Rightarrow> string \<Rightarrow> string \<Rightarrow> string" where
  "ReplaceAllString re [] repl = []"
| "ReplaceAllString re (c # cs) repl =
     (case DecodeRuneInString (c # cs) of
        (r, w) \<Rightarrow>
          (if re r then repl else take w (c # cs)) @ ReplaceAllString re (drop w (c # cs)) repl)"
  by pat_completeness auto
termination
  by (relation "measure (\<lambda>(re, s, repl). length s)")
     (auto dest: DecodeRuneInString_width [OF sym])

text \<open>The conversion \<^verbatim>\<open>[]rune(s)\<close>.\<close>

function runes :: "string \<Rightarrow> rune list" where
  "runes [] = []"
| "runes (c # cs) = (case DecodeRuneInString (c # cs) of (r, w) \<Rightarrow> r # runes (drop w (c # cs)))"
  by pat_completeness auto
termination
  by (relation "measure length") (auto dest: DecodeRuneInString_width [OF sym])

text \<open>
  The UTF-8 encoding of one rune, as the conversion \<^verbatim>\<open>string(rs)\<close> of a rune slice
  writes it; a surrogate or a value above U+10FFFF is written as U+FFFD.
\<close>

definition EncodeRune :: "rune \<Rightarrow> string" where
  "EncodeRune r =
     (if r < 128 then [char_of r]
      else if r < 2048 then [char_of (192 + r div 64), char_of (128 + r mod 64)]
      else if 1114111 < r \<or> (55296 \<le> r \<and> r \<le> 57343) then [CHR 0xEF, CHR 0xBF, CHR 0xBD]
      else if r < 65536 then
        [char_of (224 + r div 4096), char_of (128 + (r div 64) mod 64), char_of (128 + r mod 64)]
      else
        [char_of (240 + r div 262144), char_of (128 + (r div 4096) mod 64),
         char_of (128 + (r div 64) mod 64), char_of (128 + r mod 64)])"

subsection \<open>The name of a player\<close>

definition maxlen :: nat where
  "maxlen = 100"

text \<open>
  Lines 102 to 108 of \<^verbatim>\<open>handle\<close>: the non-word runes are removed, and a name of more
  than \<open>maxlen\<close> bytes is cut to its first \<open>maxlen\<close> runes.
\<close>

definition sanitizeName :: "string \<Rightarrow> panic + string" where
  "sanitizeName sshName =
     (let name = ReplaceAllString filtername sshName '''' in
      if length name > maxlen then
        (case sliceTo (runes name) maxlen of
           Inl e \<Rightarrow> Inl e
         | Inr rs \<Rightarrow> Inr (concat (map EncodeRune rs)))
      else Inr name)"

text \<open>\<^verbatim>\<open>%d\<close> of \<^verbatim>\<open>fmt.Sprintf\<close> for a number that is not negative.\<close>

fun itoa :: "nat \<Rightarrow> string" where
  "itoa n =
     (if n < 10 then [''0123456789'' ! n]
      else itoa (n div 10) @ [''0123456789'' ! (n mod 10)])"

declare itoa.simps [simp del]

subsection \<open>The server and its players\<close>

type_synonym ID = "16 word"

text \<open>
  A channel the code receives from without ranging over it: the values a receive finds
  ready, oldest first, and whether the channel has been closed.
\<close>

record 'a chan =
  chanReady :: "'a list"
  chanClosed :: bool

text \<open>
  Modelled from the spec: the type \<^verbatim>\<open>Player\<close> and its constructor \<^verbatim>\<open>NewPlayer\<close>
  are not in \<^verbatim>\<open>server.go\<close>. The spec gives a session its identity, the raw claimed
  name, the sanitized display name, a fingerprint, the handle of its channel and a queue
  of resize events; \<^verbatim>\<open>server.go\<close> reads the fields \<^verbatim>\<open>Name\<close> and \<^verbatim>\<open>resizes\<close>. The
  channel handle is the position of the accepted offer on its connection.
\<close>

record Player =
  Id :: ID
  SSHName :: string
  Name :: string
  Hash :: string
  Conn :: nat
  resizes :: "resize list"

definition NewPlayer :: "ID \<Rightarrow> string \<Rightarrow> string \<Rightarrow> string \<Rightarrow> nat \<Rightarrow> Player" where
  "NewPlayer id' sshName name hash conn =
     \<lparr>Id = id', SSHName = sshName, Name = name, Hash = hash, Conn = conn, resizes = []\<rparr>"

text \<open>
  The fields of \<^verbatim>\<open>Server\<close> that \<^verbatim>\<open>handle\<close> and \<^verbatim>\<open>NewServer\<close> use. \<open>idPool\<close> and
  \<open>newPlayers\<close> are \<open>None\<close> when the Go field is \<^verbatim>\<open>nil\<close>. \<open>newPlayers\<close>, when it is
  a channel, holds the players handed to its receiver so far. The signing key, the logger
  and the \<^verbatim>\<open>Events\<close> channel play no part below.
\<close>

record Server =
  port :: int
  addresses :: string
  idPool :: "ID chan option"
  newPlayers :: "Player list option"
  onlinePlayers :: "string \<rightharpoonup> Player"
  lines :: int

text \<open>\<^verbatim>\<open>strings.Join\<close>.\<close>

fun Join :: "string list \<Rightarrow> string \<Rightarrow> string" where
  "Join [] sep = []"
| "Join [x] sep = x"
| "Join (x # y # ys) sep = x @ sep @ Join (y # ys) sep"

text \<open>\<^verbatim>\<open>%d\<close> for an \<^verbatim>\<open>int\<close>.\<close>

definition itoaInt :: "int \<Rightarrow> string" where
  "itoaInt i = (if i < 0 then ''-'' @ itoa (nat (- i)) else itoa (nat i))"

text \<open>
  \<^verbatim>\<open>NewServer\<close>. Its surroundings enter as parameters: \<open>keyErr\<close> is the error of
  \<^verbatim>\<open>db.GetPrivateKey(s)\<close>, which loads the signing key; \<open>ifaddrs\<close> is \<open>None\<close> when
  \<^verbatim>\<open>net.InterfaceAddrs\<close> fails, and otherwise holds, for every interface address, what
  \<^verbatim>\<open>matchip.FindString\<close> finds in it (the empty string when nothing matches). The
  structure literal sets \<^verbatim>\<open>port\<close>, \<^verbatim>\<open>idPool\<close>, \<^verbatim>\<open>logf\<close>, \<^verbatim>\<open>onlinePlayers\<close>,
  \<^verbatim>\<open>lines\<close> and \<^verbatim>\<open>Events\<close>; the line that would make the \<^verbatim>\<open>newPlayers\<close> channel is
  commented out, so the field keeps its zero value, \<^verbatim>\<open>nil\<close>.
\<close>

definition NewServer ::
  "string option \<Rightarrow> string list option \<Rightarrow> int \<Rightarrow> ID chan option \<Rightarrow> string + Server" where
  "NewServer keyErr ifaddrs port' idPool' =
     (let s = \<lparr>port = port', addresses = [], idPool = idPool', newPlayers = None,
                onlinePlayers = Map.empty, lines = 1\<rparr>
      in case keyErr of
           Some err \<Rightarrow> Inl err
         | None \<Rightarrow>
             (case ifaddrs of
                None \<Rightarrow> Inr s
              | Some addrs \<Rightarrow>
                  Inr (s\<lparr>addresses :=
                         Join (map (\<lambda>ipv4. '' ssh '' @ ipv4 @ '' -p '' @ itoaInt (port s))
                                (filter (\<lambda>ipv4. ipv4 \<noteq> []) addrs))
                              [CHR 0x0A]\<rparr>)))"

subsection \<open>The connection handler\<close>

text \<open>
  What a connection brings. \<open>handshakeErr\<close> is the error of \<^verbatim>\<open>ssh.NewServerConn\<close>.
  \<open>user\<close> and \<open>keyHash\<close> are what the public-key callback leaves in \<^verbatim>\<open>sshName\<close> and
  \<^verbatim>\<open>hash\<close>: the claimed user name, and the hexadecimal MD5 sum of the offered key (empty
  when no key was seen). \<open>remoteIP\<close> is the host that \<^verbatim>\<open>net.SplitHostPort\<close> finds in the
  remote address, \<open>None\<close> when it fails. \<open>chans\<close> is the stream of channel offers up to
  the close of the transport.
\<close>

record NewChannel =
  ChannelType :: string
  acceptErr :: "string option"
  chanReqs :: "Request list"

record TCPConn =
  handshakeErr :: "string option"
  user :: string
  keyHash :: string
  remoteIP :: "string option"
  chans :: "NewChannel list"

text \<open>The reasons of \<^verbatim>\<open>ssh.RejectionReason\<close>.\<close>

datatype RejectionReason = Prohibited | ConnectionFailed | UnknownChannelType | ResourceShortage

text \<open>
  The effects of the handler on the world outside it. A channel offer is named by its
  position in \<open>chans\<close>. \<open>Accept i\<close> is the call \<^verbatim>\<open>c.Accept()\<close> on offer \<open>i\<close>, whatever it
  returns. \<open>Write i\<close> writes to the byte stream of the accepted channel, \<open>Close\<close> is
  \<^verbatim>\<open>sshConn.Close()\<close>, \<open>Register\<close> is the assignment to \<^verbatim>\<open>s.onlinePlayers\<close>, \<open>Go\<close> starts
  a goroutine whose code is outside \<^verbatim>\<open>server.go\<close>, and \<open>Publish\<close> is a completed send on
  \<^verbatim>\<open>s.newPlayers\<close>.
\<close>

datatype effect =
    Reject nat RejectionReason string
  | Accept nat
  | Write nat string
  | Close
  | Register string
  | Go string
  | Publish Player

text \<open>How the handler's own flow ends: it returns, it panics, or it blocks for ever.\<close>

datatype outcome = Returned | Panicked panic | Blocked

text \<open>
  The result of handling one connection: the server afterwards, the effects of the
  handler's own flow in program order, the effects of the goroutine that rejects the
  further offers, the run of the request loop (\<open>None\<close> when it was never started), and
  how the handler's flow ended.
\<close>

record Handled =
  server :: Server
  flow :: "effect list"
  rejecter :: "effect list"
  dispatcher :: "((nat \<times> reqEffect) list \<times> panic option) option"
  outcome :: outcome

text \<open>
  The goroutine \<^verbatim>\<open>for c := range chans { c.Reject(ssh.Prohibited, ...) }\<close>, on the offers
  that are left in the stream; \<open>i\<close> is the position of the first of them.
\<close>

fun rejectRest :: "nat \<Rightarrow> NewChannel list \<Rightarrow> effect list" where
  "rejectRest i [] = []"
| "rejectRest i (c # cs) = Reject i Prohibited ''only 1 channel allowed'' # rejectRest (Suc i) cs"

text \<open>
  The \<^verbatim>\<open>select\<close> with a \<^verbatim>\<open>default\<close> branch that draws from the pool: the drawn value
  (0 when nothing is drawn) and the pool afterwards. A \<^verbatim>\<open>nil\<close> channel is never ready,
  and neither is an open channel with no value waiting: the \<^verbatim>\<open>default\<close> branch runs and
  \<^verbatim>\<open>id\<close> keeps its initial 0. A closed channel with no value left is ready and yields the
  zero value.
\<close>

definition drawID :: "ID chan option \<Rightarrow> ID \<times> ID chan option" where
  "drawID pool =
     (case pool of
        None \<Rightarrow> (0, None)
      | Some ch \<Rightarrow>
          (case chanReady ch of
             v # vs \<Rightarrow> (v, Some (ch\<lparr>chanReady := vs\<rparr>))
           | [] \<Rightarrow> (0, Some ch)))"

text \<open>
  Lines 141 to 144 of \<^verbatim>\<open>handle\<close>: a player whose name is empty after the filter is
  called \<^verbatim>\<open>player-\<close> and the decimal identity.
\<close>

definition defaultName :: "string \<Rightarrow> ID \<Rightarrow> string" where
  "defaultName name id' = (if name = [] then ''player-'' @ itoa (unat id') else name)"

text \<open>
  Lines 145 to 150: without the hash of a key, the host part of the remote address stands
  in for it, when the address can be split.
\<close>

definition fingerprint :: "TCPConn \<Rightarrow> string" where
  "fingerprint tcpConn =
     (if keyHash tcpConn = []
      then (case remoteIP tcpConn of Some ip \<Rightarrow> ip | None \<Rightarrow> [])
      else keyHash tcpConn)"

text \<open>
  \<^verbatim>\<open>handle\<close>. The first receive from \<^verbatim>\<open>chans\<close> yields \<^verbatim>\<open>nil\<close> when the stream was
  closed without an offer, and \<^verbatim>\<open>c.ChannelType()\<close> then panics. The send on
  \<^verbatim>\<open>s.newPlayers\<close> blocks for ever on a \<^verbatim>\<open>nil\<close> channel; on a channel it completes when
  the receiver takes the player, and the model supposes that a channel has a receiver.
\<close>

definition handle :: "Server \<Rightarrow> TCPConn \<Rightarrow> Handled" where
  "handle s tcpConn =
     (case handshakeErr tcpConn of
        Some err \<Rightarrow>
          \<lparr>server = s, flow = [], rejecter = [], dispatcher = None, outcome = Returned\<rparr>
      | None \<Rightarrow>
     (case sanitizeName (user tcpConn) of
        Inl e \<Rightarrow>
          \<lparr>server = s, flow = [], rejecter = [], dispatcher = None, outcome = Panicked e\<rparr>
      | Inr name \<Rightarrow>
     (case chans tcpConn of
        [] \<Rightarrow>
          \<lparr>server = s, flow = [], rejecter = [], dispatcher = None,
           outcome = Panicked NilDereference\<rparr>
      | c # rest \<Rightarrow>
          if ChannelType c \<noteq> ''session'' then
            \<lparr>server = s,
             flow = [Reject 0 UnknownChannelType (''unknown channel type: '' @ ChannelType c),
                     Close],
             rejecter = rejectRest 1 rest, dispatcher = None, outcome = Returned\<rparr>
          else
     (case acceptErr c of
        Some err \<Rightarrow>
          \<lparr>server = s, flow = [Accept 0, Close], rejecter = rejectRest 1 rest,
           dispatcher = None, outcome = Returned\<rparr>
      | None \<Rightarrow>
     (case drawID (idPool s) of
        (id', pool) \<Rightarrow>
          if id' = 0 then
            \<lparr>server = s\<lparr>idPool := pool\<rparr>,
             flow = [Accept 0, Write 0 (''This game is full.'' @ [CHR 0x0D, CHR 0x0A]), Close],
             rejecter = rejectRest 1 rest, dispatcher = None, outcome = Returned\<rparr>
          else
            let name = defaultName name id';
                hash = fingerprint tcpConn;
                p = NewPlayer id' (user tcpConn) name hash 0;
                s1 = s\<lparr>idPool := pool, onlinePlayers := (onlinePlayers s)(Name p \<mapsto> p)\<rparr>;
                started = [Accept 0, Register (Name p), Go ''God'', Go ''receiveActions'',
                           Go ''resizeWatch''];
                reqs = Some (dispatchLoop 0 (chanReqs c))
            in case newPlayers s of
                 None \<Rightarrow>
                   \<lparr>server = s1, flow = started, rejecter = rejectRest 1 rest,
                    dispatcher = reqs, outcome = Blocked\<rparr>
               | Some q \<Rightarrow>
                   \<lparr>server = s1\<lparr>newPlayers := Some (q @ [p])\<rparr>, flow = started @ [Publish p],
                    rejecter = rejectRest 1 rest, dispatcher = reqs,
                    outcome = Returned\<rparr>)))))"

subsection \<open>Vocabulary of the properties\<close>

text \<open>The effects the loop performed for the request at position \<open>i\<close> of the stream.\<close>

definition effectsFor :: "nat \<Rightarrow> (nat \<times> reqEffect) list \<Rightarrow> reqEffect list" where
  "effectsFor i t = map snd (filter (\<lambda>x. fst x = i) t)"

text \<open>The calls of \<^verbatim>\<open>r.Reply\<close> among some effects.\<close>

fun isReply :: "reqEffect \<Rightarrow> bool" where
  "isReply (Reply ok) = True"
| "isReply (Resize d) = False"

text \<open>The loop reaches the request at position \<open>i\<close>: no request before it made the body panic.\<close>

definition reaches :: "Request list \<Rightarrow> nat \<Rightarrow> bool" where
  "reaches rs i = list_all (\<lambda>r. isl (serve r) = False) (take i rs)"

text \<open>The calls of \<^verbatim>\<open>Accept\<close> among the effects on a connection.\<close>

fun isAccept :: "effect \<Rightarrow> bool" where
  "isAccept (Accept i) = True"
| "isAccept e = False"

text \<open>The identities a draw from the pool finds immediately available.\<close>

definition waiting :: "ID chan option \<Rightarrow> ID list" where
  "waiting pool = (case pool of None \<Rightarrow> [] | Some ch \<Rightarrow> chanReady ch)"

text \<open>
  Connections used as examples below. \<open>bobConn\<close> is the end-to-end example of the
  specification: a peer that offers a key, claims the name \<^verbatim>\<open>Bob!!\<close> and opens one
  session channel. \<open>idleConn\<close> completes the handshake and is closed by the peer before
  any channel is offered.
\<close>

definition bobConn :: TCPConn where
  "bobConn =
     \<lparr>handshakeErr = None, user = ''Bob!!'', keyHash = ''0cc175b9c0f1b6a831c399e269772661'',
      remoteIP = Some ''203.0.113.5'',
      chans = [\<lparr>ChannelType = ''session'', acceptErr = None, chanReqs = []\<rparr>]\<rparr>"

definition idleConn :: TCPConn where
  "idleConn =
     \<lparr>handshakeErr = None, user = ''bob'', keyHash = ''0cc175b9c0f1b6a831c399e269772661'',
      remoteIP = Some ''203.0.113.5'', chans = []\<rparr>"

text \<open>
  \<open>threeOffers\<close> opens a session channel and then offers two more channels. \<open>forwardConn\<close>
  offers a channel of another type first. \<open>gameServer\<close> is a server with one free identity,
  7, and \<open>fullServer\<close> one whose pool has nothing waiting.
\<close>

definition threeOffers :: TCPConn where
  "threeOffers =
     \<lparr>handshakeErr = None, user = ''eve'', keyHash = [], remoteIP = Some ''198.51.100.9'',
      chans = [\<lparr>ChannelType = ''session'', acceptErr = None, chanReqs = []\<rparr>,
               \<lparr>ChannelType = ''direct-tcpip'', acceptErr = None, chanReqs = []\<rparr>,
               \<lparr>ChannelType = ''session'', acceptErr = None, chanReqs = []\<rparr>]\<rparr>"

definition forwardConn :: TCPConn where
  "forwardConn =
     \<lparr>handshakeErr = None, user = ''eve'', keyHash = [], remoteIP = Some ''198.51.100.9'',
      chans = [\<lparr>ChannelType = ''direct-tcpip'', acceptErr = None, chanReqs = []\<rparr>]\<rparr>"

definition gameServer :: Server where
  "gameServer =
     \<lparr>port = 2200, addresses = [], idPool = Some \<lparr>chanReady = [7], chanClosed = False\<rparr>,
      newPlayers = None, onlinePlayers = Map.empty, lines = 1\<rparr>"

definition fullServer :: Server where
  "fullServer =
     \<lparr>port = 2200, addresses = [], idPool = Some \<lparr>chanReady = [], chanClosed = False\<rparr>,
      newPlayers = None, onlinePlayers = Map.empty, lines = 1\<rparr>"

section \<open>Properties\<close>

subsection \<open>Decoding a resize payload\<close>

lemma or_bytes_eq_add:
  fixes a b c d :: byte
  shows "(ucast d OR push_bit 8 (ucast c) OR push_bit 16 (ucast b) OR push_bit 24 (ucast a)
            :: 32 word)
       = ucast d + (push_bit 8 (ucast c) + (push_bit 16 (ucast b) + push_bit 24 (ucast a)))"
proof -
  let ?hi = "push_bit 16 (ucast b) OR push_bit 24 (ucast a) :: 32 word"
  have hi: "?hi = push_bit 16 (ucast b) + push_bit 24 (ucast a)"
    by (rule disjunctive_add [symmetric]) (auto simp: bit_simps dest: bit_imp_le_length)
  have mid: "push_bit 8 (ucast c) OR ?hi = push_bit 8 (ucast c) + ?hi"
    by (rule disjunctive_add [symmetric]) (auto simp: bit_simps dest: bit_imp_le_length)
  have lo: "ucast d OR (push_bit 8 (ucast c) OR ?hi) = ucast d + (push_bit 8 (ucast c) OR ?hi)"
    by (rule disjunctive_add [symmetric]) (auto simp: bit_simps dest: bit_imp_le_length)
  show ?thesis
    using hi mid lo by (simp add: or.assoc)
qed

lemma unat_big_endian:
  fixes a b c d :: byte
  shows "unat (ucast d OR push_bit 8 (ucast c) OR push_bit 16 (ucast b) OR
               push_bit 24 (ucast a) :: 32 word)
       = unat a * 16777216 + unat b * 65536 + unat c * 256 + unat d"
proof -
  have bounds: "unat a < 256" "unat b < 256" "unat c < 256" "unat d < 256"
    using unsigned_less [of a, where 'a = nat] unsigned_less [of b, where 'a = nat]
      unsigned_less [of c, where 'a = nat] unsigned_less [of d, where 'a = nat]
    by simp_all
  have "(ucast d + (push_bit 8 (ucast c) + (push_bit 16 (ucast b) + push_bit 24 (ucast a)))
           :: 32 word)
      = word_of_nat (unat a * 16777216 + unat b * 65536 + unat c * 256 + unat d)"
    by (simp add: push_bit_eq_mult)
  moreover have "unat a * 16777216 + unat b * 65536 + unat c * 256 + unat d < 2 ^ 32"
    using bounds by simp
  ultimately show ?thesis
    unfolding or_bytes_eq_add
    by (simp add: unat_of_nat take_bit_nat_eq_self del: of_nat_add of_nat_mult)
qed

lemma Uint32_value:
  "4 \<le> length b \<Longrightarrow>
   \<exists>w. Uint32 b = Inr w \<and>
       unat w = unat (b ! 0) * 16777216 + unat (b ! 1) * 65536 + unat (b ! 2) * 256 + unat (b ! 3)"
  by (simp add: Uint32_def unat_big_endian)

lemma parseDims_short: "length b < 8 \<Longrightarrow> parseDims b = Inr \<lparr>width = 0, height = 0\<rparr>"
  by (simp add: parseDims_def)

lemma parseDims_long:
  assumes "8 \<le> length b"
  shows "\<exists>d. parseDims b = Inr d \<and>
           unat (width d) =
             unat (b ! 0) * 16777216 + unat (b ! 1) * 65536 + unat (b ! 2) * 256 + unat (b ! 3) \<and>
           unat (height d) =
             unat (b ! 4) * 16777216 + unat (b ! 5) * 65536 + unat (b ! 6) * 256 + unat (b ! 7)"
proof -
  obtain w where w: "Uint32 b = Inr w"
    "unat w = unat (b ! 0) * 16777216 + unat (b ! 1) * 65536 + unat (b ! 2) * 256 + unat (b ! 3)"
    using Uint32_value [of b] assms by auto
  have "4 \<le> length (drop 4 b)"
    using assms by simp
  then obtain h where h: "Uint32 (drop 4 b) = Inr h"
    "unat h = unat (drop 4 b ! 0) * 16777216 + unat (drop 4 b ! 1) * 65536 +
              unat (drop 4 b ! 2) * 256 + unat (drop 4 b ! 3)"
    using Uint32_value [of "drop 4 b"] by auto
  have "parseDims b = Inr \<lparr>width = w, height = h\<rparr>"
    using assms w(1) h(1) by (simp add: parseDims_def sliceFrom_def)
  moreover have "unat h =
      unat (b ! 4) * 16777216 + unat (b ! 5) * 65536 + unat (b ! 6) * 256 + unat (b ! 7)"
    using h(2) assms by simp
  ultimately show ?thesis
    using w(2) by simp
qed

lemma parseDims_total: "\<exists>d. parseDims b = Inr d"
proof (cases "length b < 8")
  case True
  then show ?thesis by (simp add: parseDims_short)
next
  case False
  then show ?thesis using parseDims_long [of b] by auto
qed

text \<open>
  C5. A buffer of fewer than 8 bytes decodes to width 0 and height 0. In a buffer of at
  least 8 bytes the first four bytes, most significant first, are the width, and the next
  four are the height; so \<^verbatim>\<open>00 00 00 50 00 00 00 18\<close> decodes to width 80 and height 24.
  Decoding never panics.
\<close>

theorem parseDims_decodes:
  "(\<exists>d. parseDims b = Inr d) \<and>
   (length b < 8 \<longrightarrow> parseDims b = Inr \<lparr>width = 0, height = 0\<rparr>) \<and>
   (8 \<le> length b \<longrightarrow>
      (\<exists>d. parseDims b = Inr d \<and>
         unat (width d) =
           unat (b ! 0) * 16777216 + unat (b ! 1) * 65536 + unat (b ! 2) * 256 + unat (b ! 3) \<and>
         unat (height d) =
           unat (b ! 4) * 16777216 + unat (b ! 5) * 65536 + unat (b ! 6) * 256 + unat (b ! 7))) \<and>
   parseDims [0, 0, 0, 0x50, 0, 0, 0, 0x18] = Inr \<lparr>width = 80, height = 24\<rparr>"
proof -
  have "parseDims [0, 0, 0, 0x50, 0, 0, 0, 0x18] = Inr \<lparr>width = 80, height = 24\<rparr>"
    by (simp add: parseDims_def Uint32_def sliceFrom_def)
  then show ?thesis
    using parseDims_total [of b] parseDims_short [of b] parseDims_long [of b] by blast
qed

theorem parseDims_decodes_witness:
  "length [1, 2, 3 :: byte] < 8 \<and>
   parseDims [1, 2, 3] = Inr \<lparr>width = 0, height = 0\<rparr> \<and>
   8 \<le> length [0, 0, 1, 2, 0, 0, 0, 0x18, 9 :: byte] \<and>
   (\<exists>d. parseDims [0, 0, 1, 2, 0, 0, 0, 0x18, 9] = Inr d \<and>
        unat (width d) = 258 \<and> unat (height d) = 24)"
  using parseDims_decodes [of "[1, 2, 3]"] parseDims_decodes [of "[0, 0, 1, 2, 0, 0, 0, 0x18, 9]"]
  by simp

subsection \<open>The request loop\<close>

lemma dispatchLoop_tags: "x \<in> set (fst (dispatchLoop k rs)) \<Longrightarrow> k \<le> fst x"
proof (induction rs arbitrary: k)
  case Nil
  then show ?case by simp
next
  case (Cons r rs)
  show ?case
  proof (cases "serve r")
    case (Inl e)
    then show ?thesis using Cons.prems by simp
  next
    case (Inr es)
    obtain t res where t: "dispatchLoop (Suc k) rs = (t, res)"
      by (cases "dispatchLoop (Suc k) rs")
    from Cons.prems Inr t have "x \<in> Pair k ` set es \<or> x \<in> set t"
      by auto
    then show ?thesis
    proof
      assume "x \<in> Pair k ` set es"
      then show ?thesis by auto
    next
      assume "x \<in> set t"
      then have "Suc k \<le> fst x" using Cons.IH [of "Suc k"] t by simp
      then show ?thesis by simp
    qed
  qed
qed

lemma effectsFor_later: "effectsFor k (fst (dispatchLoop (Suc k) rs)) = []"
proof -
  have "\<forall>x \<in> set (fst (dispatchLoop (Suc k) rs)). fst x \<noteq> k"
    using dispatchLoop_tags [of _ "Suc k" rs] by fastforce
  then show ?thesis
    by (simp add: effectsFor_def filter_empty_conv)
qed

lemma effectsFor_here: "effectsFor k (map (Pair k) es @ t) = es @ effectsFor k t"
  by (simp add: effectsFor_def filter_map comp_def)

lemma effectsFor_skip: "j \<noteq> k \<Longrightarrow> effectsFor j (map (Pair k) es @ t) = effectsFor j t"
  by (simp add: effectsFor_def filter_map comp_def)

lemma dispatchLoop_serves:
  "i < length rs \<Longrightarrow> reaches rs i \<Longrightarrow>
   effectsFor (k + i) (fst (dispatchLoop k rs)) =
     (case serve (rs ! i) of Inl e \<Rightarrow> [] | Inr es \<Rightarrow> es)"
proof (induction rs arbitrary: k i)
  case Nil
  then show ?case by simp
next
  case (Cons r rs)
  obtain t res where t: "dispatchLoop (Suc k) rs = (t, res)"
    by (cases "dispatchLoop (Suc k) rs")
  show ?case
  proof (cases i)
    case 0
    show ?thesis
    proof (cases "serve r")
      case (Inl e)
      then show ?thesis using 0 by (simp add: effectsFor_def)
    next
      case (Inr es)
      have "effectsFor k t = []"
        using effectsFor_later [of k rs] t by simp
      then show ?thesis
        using 0 Inr t by (simp add: effectsFor_here)
    qed
  next
    case (Suc j)
    from Cons.prems Suc have j: "j < length rs" and ok: "isl (serve r) = False"
      and reach: "reaches rs j"
      by (simp_all add: reaches_def)
    from ok obtain es where es: "serve r = Inr es"
      by (cases "serve r") auto
    have "effectsFor (Suc k + j) (fst (dispatchLoop (Suc k) rs)) =
            (case serve (rs ! j) of Inl e \<Rightarrow> [] | Inr es \<Rightarrow> es)"
      using Cons.IH [OF j reach] .
    then show ?thesis
      using Suc es t by (simp add: effectsFor_skip)
  qed
qed

text \<open>
  C8. A \<^verbatim>\<open>shell\<close> request is answered once: accepted when its payload is empty, declined
  when it is not. This holds of the body of the loop, and of the loop for every request
  that it reaches.
\<close>

theorem shell_reply:
  "(Type r = ''shell'' \<longrightarrow> serve r = Inr [Reply (Payload r = [])]) \<and>
   (i < length rs \<and> reaches rs i \<and> Type (rs ! i) = ''shell'' \<longrightarrow>
      effectsFor i (fst (dispatchLoop 0 rs)) = [Reply (Payload (rs ! i) = [])])"
proof -
  have body: "serve q = Inr [Reply (Payload q = [])]" if "Type q = ''shell''" for q
    using that by (simp add: serve_def)
  have "effectsFor i (fst (dispatchLoop 0 rs)) = [Reply (Payload (rs ! i) = [])]"
    if "i < length rs" "reaches rs i" "Type (rs ! i) = ''shell''"
    using dispatchLoop_serves [OF that(1,2), of 0] body [OF that(3)] by simp
  then show ?thesis
    using body by blast
qed

theorem shell_reply_witness:
  "Type \<lparr>Type = ''shell'', Payload = []\<rparr> = ''shell'' \<and>
   serve \<lparr>Type = ''shell'', Payload = []\<rparr> = Inr [Reply True] \<and>
   reaches [\<lparr>Type = ''env'', Payload = [1]\<rparr>, \<lparr>Type = ''shell'', Payload = [0, 0, 0, 2, 108, 115]\<rparr>] 1 \<and>
   effectsFor 1
     (fst (dispatchLoop 0
        [\<lparr>Type = ''env'', Payload = [1]\<rparr>, \<lparr>Type = ''shell'', Payload = [0, 0, 0, 2, 108, 115]\<rparr>]))
     = [Reply False]"
  using shell_reply [of "\<lparr>Type = ''shell'', Payload = []\<rparr>" 1
      "[\<lparr>Type = ''env'', Payload = [1]\<rparr>, \<lparr>Type = ''shell'', Payload = [0, 0, 0, 2, 108, 115]\<rparr>]"]
  by (simp add: reaches_def serve_def)

lemma serve_replies:
  assumes "serve r = Inr es"
  shows "length (filter isReply es) = (if Type r = ''window-change'' then 0 else 1)"
proof -
  consider "Type r = ''shell''" | "Type r = ''pty-req''" | "Type r = ''window-change''"
    | "Type r \<noteq> ''shell''" "Type r \<noteq> ''pty-req''" "Type r \<noteq> ''window-change''"
    by blast
  then show ?thesis
  proof cases
    case 1
    then show ?thesis using assms by (auto simp: serve_def)
  next
    case 2
    then show ?thesis using assms by (auto simp: serve_def split: sum.splits)
  next
    case 3
    then show ?thesis using assms by (auto simp: serve_def split: sum.splits)
  next
    case 4
    then show ?thesis using assms by (auto simp: serve_def)
  qed
qed

lemma serve_pty_req_in_range:
  assumes "Type r = ''pty-req''" and "3 < length (Payload r)"
    and "unat (Payload r ! 3 + 4) \<le> length (Payload r)"
  shows "\<exists>d. parseDims (drop (unat (Payload r ! 3 + 4)) (Payload r)) = Inr d \<and>
             serve r = Inr [Resize d, Reply True]"
proof -
  obtain d where "parseDims (drop (unat (Payload r ! 3 + 4)) (Payload r)) = Inr d"
    using parseDims_total by blast
  then show ?thesis
    using assms by (simp add: serve_def index_def sliceFrom_def)
qed

lemma serve_pty_req_xterm:
  "serve \<lparr>Type = ''pty-req'',
          Payload = [0, 0, 0, 5, 120, 116, 101, 114, 109, 0, 0, 0, 0x50, 0, 0, 0, 0x18,
                     0, 0, 0, 0, 0, 0, 0, 0, 0, 0, 0, 0]\<rparr>
     = Inr [Resize \<lparr>width = 80, height = 24\<rparr>, Reply True]"
  by (simp add: serve_def index_def sliceFrom_def parseDims_def Uint32_def)

text \<open>
  C3. A \<^verbatim>\<open>pty-req\<close> request is not served for a payload of any length. The body reads
  \<^verbatim>\<open>r.Payload[3]\<close> and slices at \<^verbatim>\<open>strlen+4\<close> without a check of the length: with an
  empty payload the index panics, with a string length that points past the end the slice
  panics, and in both cases nothing is acknowledged or forwarded. The sum \<^verbatim>\<open>strlen+4\<close> is
  a byte: for a length byte of 252 it is 0, and the dimensions are read from the start of
  the payload.
\<close>

theorem pty_req_short_payload_panics:
  "serve \<lparr>Type = ''pty-req'', Payload = []\<rparr> = Inl IndexOutOfRange \<and>
   serve \<lparr>Type = ''pty-req'', Payload = [0, 0, 0, 5, 120, 116]\<rparr> = Inl SliceBoundsOutOfRange \<and>
   serve \<lparr>Type = ''pty-req'', Payload = [0, 0, 0, 252, 0, 0, 0, 0x18]\<rparr>
     = Inr [Resize \<lparr>width = 252, height = 24\<rparr>, Reply True]"
  by (simp add: serve_def index_def sliceFrom_def parseDims_def Uint32_def)

text \<open>
  C9. Not every request other than \<^verbatim>\<open>window-change\<close> is answered. A \<^verbatim>\<open>pty-req\<close> with an
  empty payload makes the body panic before \<^verbatim>\<open>r.Reply\<close>: that request gets no reply, and
  neither does the \<^verbatim>\<open>shell\<close> request behind it, which the loop never reaches. (A request
  that the body serves without a panic gets one reply, or none when it is a
  \<^verbatim>\<open>window-change\<close>: lemma \<open>serve_replies\<close>.)
\<close>

theorem pty_req_gets_no_reply:
  "dispatchLoop 0 [\<lparr>Type = ''pty-req'', Payload = []\<rparr>, \<lparr>Type = ''shell'', Payload = []\<rparr>]
     = ([], Some IndexOutOfRange) \<and>
   filter isReply
     (effectsFor 0
        (fst (dispatchLoop 0
           [\<lparr>Type = ''pty-req'', Payload = []\<rparr>, \<lparr>Type = ''shell'', Payload = []\<rparr>]))) = [] \<and>
   filter isReply
     (effectsFor 1
        (fst (dispatchLoop 0
           [\<lparr>Type = ''pty-req'', Payload = []\<rparr>, \<lparr>Type = ''shell'', Payload = []\<rparr>]))) = []"
  by (simp add: serve_def index_def effectsFor_def)

subsection \<open>The name filter\<close>

lemma mod_in_block: "n * q \<le> m \<Longrightarrow> m < n * Suc q \<Longrightarrow> m mod n = m - n * q" for m n q :: nat
proof -
  assume "n * q \<le> m" and "m < n * Suc q"
  then have "m div n = q"
    by (rule div_nat_eqI)
  then show ?thesis
    by (simp add: modulo_nat_def mult.commute)
qed

lemma two_byte_rune:
  assumes "194 \<le> (b0::nat)" and "b0 \<le> 223"
  shows "128 \<le> (b0 mod 32) * 64 + x"
proof -
  have "b0 mod 32 = b0 - 32 * 6"
    using assms by (intro mod_in_block) simp_all
  then show ?thesis
    using assms by simp
qed

lemma three_byte_rune_E0:
  assumes "160 \<le> (b1::nat)" and "b1 \<le> 191"
  shows "128 \<le> (b1 mod 64) * 64 + x"
proof -
  have "b1 mod 64 = b1 - 64 * 2"
    using assms by (intro mod_in_block) simp_all
  then show ?thesis
    using assms by simp
qed

lemma three_byte_rune:
  assumes "224 \<le> (b0::nat)" and "b0 \<noteq> 224" and "b0 \<le> 239"
  shows "128 \<le> (b0 mod 16) * 4096 + y + x"
proof -
  have "b0 mod 16 = b0 - 16 * 14"
    using assms by (intro mod_in_block) simp_all
  then show ?thesis
    using assms by simp
qed

lemma four_byte_rune_F0:
  assumes "144 \<le> (b1::nat)" and "b1 \<le> 191"
  shows "128 \<le> (b1 mod 64) * 4096 + y + x"
proof -
  have "b1 mod 64 = b1 - 64 * 2"
    using assms by (intro mod_in_block) simp_all
  then show ?thesis
    using assms by simp
qed

lemma four_byte_rune:
  assumes "240 \<le> (b0::nat)" and "b0 \<noteq> 240" and "b0 \<le> 244"
  shows "128 \<le> (b0 mod 8) * 262144 + z + y + x"
proof -
  have "b0 mod 8 = b0 - 8 * 30"
    using assms by (intro mod_in_block) simp_all
  then show ?thesis
    using assms by simp
qed

text \<open>A rune that takes more than one byte is not an ASCII character.\<close>

lemma DecodeRune_wide: "DecodeRune (b # bs) = (r, w) \<Longrightarrow> w \<noteq> 1 \<Longrightarrow> 128 \<le> r"
  by (auto split: if_splits list.splits simp: cont_def
      intro: two_byte_rune three_byte_rune_E0 three_byte_rune four_byte_rune_F0 four_byte_rune)

lemma DecodeRune_word:
  assumes "DecodeRune (b # bs) = (r, w)" and "isWord r"
  shows "w = 1 \<and> r = b"
proof -
  have small: "r < 128"
    using assms(2) by (auto simp: isWord_def)
  then have w: "w = 1"
    using DecodeRune_wide [OF assms(1)] by auto
  have "r = b"
    using assms(1) w small by (auto split: if_splits list.splits simp: RuneError_def)
  then show ?thesis
    using w by simp
qed

lemma DecodeRuneInString_word:
  "DecodeRuneInString (c # cs) = (r, w) \<Longrightarrow> isWord r \<Longrightarrow> w = 1 \<and> r = of_char c"
  using DecodeRune_word [of "of_char c" "map of_char cs" r w]
  by (simp add: DecodeRuneInString_def)

lemma DecodeRuneInString_ascii:
  "of_char c < (128::nat) \<Longrightarrow> DecodeRuneInString (c # cs) = (of_char c, 1)"
  by (simp add: DecodeRuneInString_def)

text \<open>What the filter leaves consists of word bytes.\<close>

lemma ReplaceAllString_step:
  "DecodeRuneInString (c # cs) = (r, w) \<Longrightarrow>
   ReplaceAllString re (c # cs) repl =
     (if re r then repl else take w (c # cs)) @ ReplaceAllString re (drop w (c # cs)) repl"
  by (subst ReplaceAllString.simps(2)) (simp only: prod.case)

lemma ReplaceAllString_filtername:
  "c \<in> set (ReplaceAllString filtername s []) \<Longrightarrow> isWord (of_char c)"
proof (induction s rule: length_induct)
  case (1 s)
  show ?case
  proof (cases s)
    case Nil
    then show ?thesis using "1.prems" by simp
  next
    case (Cons a as)
    obtain r w where d: "DecodeRuneInString (a # as) = (r, w)"
      by (cases "DecodeRuneInString (a # as)")
    define rest where "rest = drop w (a # as)"
    have "1 \<le> w"
      using DecodeRuneInString_width [OF d] by simp
    then have "length rest < length s"
      using Cons by (simp add: rest_def)
    then have rest: "isWord (of_char c)" if "c \<in> set (ReplaceAllString filtername rest [])"
      using "1.IH" that by blast
    have step: "ReplaceAllString filtername s [] =
        (if filtername r then [] else take w (a # as)) @ ReplaceAllString filtername rest []"
      unfolding Cons rest_def using d by (rule ReplaceAllString_step)
    show ?thesis
    proof (cases "isWord r")
      case True
      then have "w = 1" and "r = of_char a"
        using DecodeRuneInString_word [OF d] by simp_all
      then have "ReplaceAllString filtername s [] = a # ReplaceAllString filtername rest []"
        using step True by (simp add: filtername_def)
      then have "c = a \<or> c \<in> set (ReplaceAllString filtername rest [])"
        using "1.prems" by simp
      then show ?thesis
        using True \<open>r = of_char a\<close> rest by auto
    next
      case False
      then have "ReplaceAllString filtername s [] = ReplaceAllString filtername rest []"
        using step by (simp add: filtername_def)
      then show ?thesis
        using "1.prems" rest by simp
    qed
  qed
qed

text \<open>On a string of word bytes, bytes and runes are the same thing.\<close>

lemma isWord_ascii: "isWord r \<Longrightarrow> r < 128"
  by (auto simp: isWord_def)

lemma runes_word_bytes: "\<forall>c \<in> set s. isWord (of_char c) \<Longrightarrow> runes s = map of_char s"
proof (induction s)
  case Nil
  then show ?case by simp
next
  case (Cons c cs)
  then have "of_char c < (128::nat)"
    using isWord_ascii [of "of_char c"] by simp
  then have "DecodeRuneInString (c # cs) = (of_char c, 1)"
    by (rule DecodeRuneInString_ascii)
  then show ?case
    using Cons by simp
qed

lemma EncodeRune_word_bytes:
  "\<forall>c \<in> set s. isWord (of_char c) \<Longrightarrow> concat (map EncodeRune (map of_char s)) = s"
proof (induction s)
  case Nil
  then show ?case by simp
next
  case (Cons c cs)
  then have "of_char c < (128::nat)"
    using isWord_ascii [of "of_char c"] by simp
  then have "EncodeRune (of_char c) = [c]"
    by (simp add: EncodeRune_def)
  then show ?case
    using Cons by simp
qed

text \<open>The result of lines 102 to 108, in closed form.\<close>

lemma sanitizeName_eq:
  "sanitizeName u = Inr (take maxlen (ReplaceAllString filtername u []))"
proof -
  let ?name = "ReplaceAllString filtername u []"
  have word: "\<forall>c \<in> set ?name. isWord (of_char c)"
    using ReplaceAllString_filtername by blast
  show ?thesis
  proof (cases "maxlen < length ?name")
    case False
    then show ?thesis by (simp add: sanitizeName_def)
  next
    case True
    have rs: "runes ?name = map of_char ?name"
      using word by (rule runes_word_bytes)
    have "\<forall>c \<in> set (take maxlen ?name). isWord (of_char c)"
      using word by (meson in_set_takeD)
    then have "concat (map EncodeRune (map of_char (take maxlen ?name))) = take maxlen ?name"
      by (rule EncodeRune_word_bytes)
    then show ?thesis
      using True rs by (simp add: sanitizeName_def sliceTo_def Let_def take_map)
  qed
qed

text \<open>
  C2. For every claimed user name, the filter and the cut return a name and do not panic;
  every byte of the name is a word character, so is every rune of it, and the name has at
  most 100 runes.
\<close>

theorem sanitizeName_word_chars_at_most_100:
  "\<exists>name. sanitizeName u = Inr name \<and>
      (\<forall>c \<in> set name. isWord (of_char c)) \<and>
      (\<forall>r \<in> set (runes name). isWord r) \<and>
      length (runes name) \<le> 100"
proof -
  let ?name = "take maxlen (ReplaceAllString filtername u [])"
  have word: "\<forall>c \<in> set ?name. isWord (of_char c)"
    using ReplaceAllString_filtername by (meson in_set_takeD)
  then have rs: "runes ?name = map of_char ?name"
    by (rule runes_word_bytes)
  have "\<forall>r \<in> set (runes ?name). isWord r"
    using word rs by simp
  moreover have "length (runes ?name) \<le> 100"
    using rs by (simp add: maxlen_def)
  ultimately show ?thesis
    using word sanitizeName_eq [of u] by blast
qed

theorem sanitizeName_word_chars_at_most_100_witness:
  "sanitizeName (''Bob!! '' @ [CHR 0x1B, CHR 0xC3, CHR 0xA9, CHR 0xFF] @ ''_7'') = Inr ''Bob_7'' \<and>
   list_all (\<lambda>c. isWord (of_char c)) ''Bob_7'' \<and>
   runes ''Bob_7'' = [66, 111, 98, 95, 55] \<and>
   length (runes ''Bob_7'') \<le> 100"
proof -
  have name: "sanitizeName (''Bob!! '' @ [CHR 0x1B, CHR 0xC3, CHR 0xA9, CHR 0xFF] @ ''_7'')
                = Inr ''Bob_7''"
    by (simp add: sanitizeName_def DecodeRuneInString_def filtername_def isWord_def maxlen_def
        cont_def RuneError_def)
  show ?thesis
    using sanitizeName_word_chars_at_most_100
            [of "''Bob!! '' @ [CHR 0x1B, CHR 0xC3, CHR 0xA9, CHR 0xFF] @ ''_7''"]
    unfolding name by (simp add: DecodeRuneInString_def isWord_def)
qed

subsection \<open>The connection handler\<close>

lemma rejectRest_eq:
  "rejectRest i cs = map (\<lambda>j. Reject j Prohibited ''only 1 channel allowed'') [i..<i + length cs]"
proof (induction cs arbitrary: i)
  case Nil
  then show ?case by simp
next
  case (Cons c cs)
  have "[i..<i + length (c # cs)] = i # [Suc i..<Suc i + length cs]"
    by (simp add: upt_rec)
  then show ?case
    using Cons.IH [of "Suc i"] by simp
qed

lemma rejectRest_no_Accept: "filter isAccept (rejectRest i cs) = []"
  by (induction cs arbitrary: i) simp_all

text \<open>The paths through \<^verbatim>\<open>handle\<close> after a successful handshake.\<close>

lemma handle_no_offer:
  assumes "handshakeErr tcpConn = None" and "chans tcpConn = []"
  shows "handle s tcpConn =
           \<lparr>server = s, flow = [], rejecter = [], dispatcher = None,
            outcome = Panicked NilDereference\<rparr>"
  using assms by (simp add: handle_def sanitizeName_eq)

lemma handle_not_session:
  assumes "handshakeErr tcpConn = None" and "chans tcpConn = c # rest"
    and "ChannelType c \<noteq> ''session''"
  shows "handle s tcpConn =
           \<lparr>server = s,
            flow = [Reject 0 UnknownChannelType (''unknown channel type: '' @ ChannelType c),
                    Close],
            rejecter = rejectRest 1 rest, dispatcher = None, outcome = Returned\<rparr>"
  using assms by (simp add: handle_def sanitizeName_eq)

lemma handle_accept_failed:
  assumes "handshakeErr tcpConn = None" and "chans tcpConn = c # rest"
    and "ChannelType c = ''session''" and "acceptErr c = Some err"
  shows "handle s tcpConn =
           \<lparr>server = s, flow = [Accept 0, Close], rejecter = rejectRest 1 rest,
            dispatcher = None, outcome = Returned\<rparr>"
  using assms by (simp add: handle_def sanitizeName_eq)

lemma handle_full:
  assumes "handshakeErr tcpConn = None" and "chans tcpConn = c # rest"
    and "ChannelType c = ''session''" and "acceptErr c = None"
    and "drawID (idPool s) = (0, pool)"
  shows "handle s tcpConn =
           \<lparr>server = s\<lparr>idPool := pool\<rparr>,
            flow = [Accept 0, Write 0 (''This game is full.'' @ [CHR 0x0D, CHR 0x0A]), Close],
            rejecter = rejectRest 1 rest, dispatcher = None, outcome = Returned\<rparr>"
  using assms by (simp add: handle_def sanitizeName_eq)

lemma handle_admitted:
  assumes "handshakeErr tcpConn = None" and "chans tcpConn = c # rest"
    and "ChannelType c = ''session''" and "acceptErr c = None"
    and "sanitizeName (user tcpConn) = Inr name"
    and "drawID (idPool s) = (i, pool)" and "i \<noteq> 0"
  defines "p \<equiv> NewPlayer i (user tcpConn) (defaultName name i) (fingerprint tcpConn) 0"
  shows "handle s tcpConn =
           (case newPlayers s of
              None \<Rightarrow>
                \<lparr>server = s\<lparr>idPool := pool, onlinePlayers := (onlinePlayers s)(Name p \<mapsto> p)\<rparr>,
                 flow = [Accept 0, Register (Name p), Go ''God'', Go ''receiveActions'',
                         Go ''resizeWatch''],
                 rejecter = rejectRest 1 rest,
                 dispatcher = Some (dispatchLoop 0 (chanReqs c)), outcome = Blocked\<rparr>
            | Some q \<Rightarrow>
                \<lparr>server = s\<lparr>idPool := pool, onlinePlayers := (onlinePlayers s)(Name p \<mapsto> p),
                            newPlayers := Some (q @ [p])\<rparr>,
                 flow = [Accept 0, Register (Name p), Go ''God'', Go ''receiveActions'',
                         Go ''resizeWatch'', Publish p],
                 rejecter = rejectRest 1 rest,
                 dispatcher = Some (dispatchLoop 0 (chanReqs c)), outcome = Returned\<rparr>)"
  using assms(1-7) unfolding p_def
  by (cases "newPlayers s") (simp_all add: handle_def Let_def)

lemma drawID_nothing_waiting: "waiting pool = [] \<Longrightarrow> drawID pool = (0, pool)"
  by (simp add: waiting_def drawID_def split: option.splits list.splits)

lemma handle_channels:
  assumes "handshakeErr tcpConn = None"
  shows "rejecter (handle s tcpConn) = rejectRest 1 (tl (chans tcpConn))"
    and "filter isAccept (flow (handle s tcpConn)) = [] \<or>
         filter isAccept (flow (handle s tcpConn)) = [Accept 0]"
  using assms
  by (auto simp: handle_def sanitizeName_eq Let_def
      split: list.splits option.splits prod.splits)

text \<open>
  C4. On a connection whose handshake succeeded, \<^verbatim>\<open>Accept\<close> is called at most once, and
  only on the first channel offer; every offer after the first is rejected with the reason
  \<^verbatim>\<open>Prohibited\<close>, whatever its type.
\<close>

theorem at_most_one_channel_accepted:
  assumes "handshakeErr tcpConn = None"
  shows "length (filter isAccept (flow (handle s tcpConn) @ rejecter (handle s tcpConn))) \<le> 1 \<and>
         (\<forall>i. Accept i \<in> set (flow (handle s tcpConn) @ rejecter (handle s tcpConn)) \<longrightarrow> i = 0) \<and>
         rejecter (handle s tcpConn) =
           map (\<lambda>i. Reject i Prohibited ''only 1 channel allowed'') [1..<length (chans tcpConn)]"
proof -
  let ?all = "flow (handle s tcpConn) @ rejecter (handle s tcpConn)"
  have rej: "rejecter (handle s tcpConn) = rejectRest 1 (tl (chans tcpConn))"
    using assms by (rule handle_channels(1))
  have acc: "filter isAccept ?all = filter isAccept (flow (handle s tcpConn))"
    using rej by (simp add: rejectRest_no_Accept)
  have one: "filter isAccept ?all = [] \<or> filter isAccept ?all = [Accept 0]"
    using handle_channels(2) [OF assms, of s] acc by simp
  have first: "i = 0" if "Accept i \<in> set ?all" for i
  proof -
    define xs where "xs = filter isAccept ?all"
    have "Accept i \<in> set xs"
      unfolding xs_def using that by simp
    moreover have "xs = [] \<or> xs = [Accept 0]"
      unfolding xs_def by (rule one)
    ultimately show ?thesis
      by auto
  qed
  have "[1..<1 + length (tl (chans tcpConn))] = [1..<length (chans tcpConn)]"
    by (cases "chans tcpConn") simp_all
  then have "rejecter (handle s tcpConn) =
      map (\<lambda>i. Reject i Prohibited ''only 1 channel allowed'') [1..<length (chans tcpConn)]"
    using rej by (simp add: rejectRest_eq)
  moreover have "length (filter isAccept ?all) \<le> 1"
  proof -
    define xs where "xs = filter isAccept ?all"
    have "xs = [] \<or> xs = [Accept 0]"
      unfolding xs_def by (rule one)
    then have "length xs \<le> 1"
      by auto
    then show ?thesis
      unfolding xs_def .
  qed
  ultimately show ?thesis
    using first by blast
qed

theorem at_most_one_channel_accepted_witness:
  "handshakeErr threeOffers = None \<and>
   filter isAccept (flow (handle gameServer threeOffers) @ rejecter (handle gameServer threeOffers))
     = [Accept 0] \<and>
   rejecter (handle gameServer threeOffers) =
     [Reject 1 Prohibited ''only 1 channel allowed'', Reject 2 Prohibited ''only 1 channel allowed'']"
proof -
  have "sanitizeName ''eve'' = Inr ''eve''"
    by (simp add: sanitizeName_def DecodeRuneInString_def filtername_def isWord_def maxlen_def)
  then have "flow (handle gameServer threeOffers) =
      [Accept 0, Register ''eve'', Go ''God'', Go ''receiveActions'', Go ''resizeWatch'']"
    by (simp add: handle_def threeOffers_def gameServer_def drawID_def Let_def NewPlayer_def
        defaultName_def)
  then show ?thesis
    using at_most_one_channel_accepted [of threeOffers gameServer]
    by (simp add: threeOffers_def upt_rec)
qed

text \<open>
  C6. When the first channel offered on a connection is not of type \<^verbatim>\<open>session\<close>, the
  handler rejects it with the reason \<^verbatim>\<open>UnknownChannelType\<close>, closes the connection and
  returns: the channel is not accepted, no player is registered or published (the server
  is as before), and no request loop is started.
\<close>

theorem non_session_channel_closes_connection:
  assumes "handshakeErr tcpConn = None" and "chans tcpConn = c # rest"
    and "ChannelType c \<noteq> ''session''"
  shows "flow (handle s tcpConn) =
           [Reject 0 UnknownChannelType (''unknown channel type: '' @ ChannelType c), Close] \<and>
         server (handle s tcpConn) = s \<and>
         dispatcher (handle s tcpConn) = None \<and>
         outcome (handle s tcpConn) = Returned"
  using handle_not_session [OF assms, of s] by simp

theorem non_session_channel_closes_connection_witness:
  "handshakeErr forwardConn = None \<and>
   chans forwardConn = [\<lparr>ChannelType = ''direct-tcpip'', acceptErr = None, chanReqs = []\<rparr>] \<and>
   flow (handle gameServer forwardConn) =
     [Reject 0 UnknownChannelType ''unknown channel type: direct-tcpip'', Close] \<and>
   server (handle gameServer forwardConn) = gameServer \<and>
   dispatcher (handle gameServer forwardConn) = None \<and>
   outcome (handle gameServer forwardConn) = Returned"
  using non_session_channel_closes_connection
          [of forwardConn "\<lparr>ChannelType = ''direct-tcpip'', acceptErr = None, chanReqs = []\<rparr>"
              "[]" gameServer]
  by (simp add: forwardConn_def)

text \<open>
  C7. After the session channel is accepted, when the pool has no identity waiting, the
  draw yields 0 at once and leaves the pool as it is; the handler writes the notice
  \<^verbatim>\<open>This game is full.\<close> to the channel, closes the connection and returns. It does not
  block, the server (its registry included) is as before, and no request loop is started.
\<close>

theorem full_game_notice:
  assumes "handshakeErr tcpConn = None" and "chans tcpConn = c # rest"
    and "ChannelType c = ''session''" and "acceptErr c = None"
    and "waiting (idPool s) = []"
  shows "drawID (idPool s) = (0, idPool s) \<and>
         flow (handle s tcpConn) =
           [Accept 0, Write 0 (''This game is full.'' @ [CHR 0x0D, CHR 0x0A]), Close] \<and>
         server (handle s tcpConn) = s \<and>
         dispatcher (handle s tcpConn) = None \<and>
         outcome (handle s tcpConn) = Returned"
proof -
  have draw: "drawID (idPool s) = (0, idPool s)"
    using assms(5) by (rule drawID_nothing_waiting)
  show ?thesis
    using handle_full [OF assms(1-4) draw] draw by simp
qed

theorem full_game_notice_witness:
  "handshakeErr bobConn = None \<and>
   chans bobConn = [\<lparr>ChannelType = ''session'', acceptErr = None, chanReqs = []\<rparr>] \<and>
   waiting (idPool fullServer) = [] \<and>
   flow (handle fullServer bobConn) =
     [Accept 0, Write 0 (''This game is full.'' @ [CHR 0x0D, CHR 0x0A]), Close] \<and>
   server (handle fullServer bobConn) = fullServer \<and>
   outcome (handle fullServer bobConn) = Returned"
  using full_game_notice
          [of bobConn "\<lparr>ChannelType = ''session'', acceptErr = None, chanReqs = []\<rparr>" "[]"
              fullServer]
  by (simp add: bobConn_def fullServer_def waiting_def)

text \<open>
  C10. The handler is not total when the offer stream is closed before any offer. The
  receive from the closed stream yields \<^verbatim>\<open>nil\<close>, and the call \<^verbatim>\<open>c.ChannelType()\<close> on
  it panics; the receive is not checked for a closed stream.
\<close>

theorem no_offer_panics:
  "handle s idleConn =
     \<lparr>server = s, flow = [], rejecter = [], dispatcher = None,
      outcome = Panicked NilDereference\<rparr>"
  by (rule handle_no_offer) (simp_all add: idleConn_def)

lemma sanitizeName_Bob: "sanitizeName ''Bob!!'' = Inr ''Bob''"
  by (simp add: sanitizeName_def DecodeRuneInString_def filtername_def isWord_def maxlen_def)

text \<open>
  C1. An admitted player is registered but is not delivered on \<^verbatim>\<open>newPlayers\<close>. The
  server that \<^verbatim>\<open>NewServer\<close> returns has no such channel (the field is \<^verbatim>\<open>nil\<close>), so for
  the connection of the specification's example (\<^verbatim>\<open>Bob!!\<close>, identity 7 free) the handler
  registers the player under \<^verbatim>\<open>Bob\<close>, starts the goroutines and then blocks for ever in
  the send: nothing is published.
\<close>

theorem admitted_player_is_not_published:
  "\<exists>s. NewServer None None 2200 (Some \<lparr>chanReady = [7], chanClosed = False\<rparr>) = Inr s \<and>
       newPlayers s = None \<and>
       flow (handle s bobConn) =
         [Accept 0, Register ''Bob'', Go ''God'', Go ''receiveActions'', Go ''resizeWatch''] \<and>
       map_option Name (onlinePlayers (server (handle s bobConn)) ''Bob'') = Some ''Bob'' \<and>
       newPlayers (server (handle s bobConn)) = None \<and>
       outcome (handle s bobConn) = Blocked"
  by (simp add: NewServer_def handle_def bobConn_def sanitizeName_Bob drawID_def Let_def
      NewPlayer_def defaultName_def fingerprint_def)

text \<open>
  With a \<^verbatim>\<open>newPlayers\<close> channel in place the same admission registers the player first
  and publishes it once, last.
\<close>

lemma admitted_player_published_on_channel:
  "flow (handle (gameServer\<lparr>newPlayers := Some []\<rparr>) bobConn) =
     [Accept 0, Register ''Bob'', Go ''God'', Go ''receiveActions'', Go ''resizeWatch'',
      Publish (NewPlayer 7 ''Bob!!'' ''Bob'' ''0cc175b9c0f1b6a831c399e269772661'' 0)] \<and>
   newPlayers (server (handle (gameServer\<lparr>newPlayers := Some []\<rparr>) bobConn)) =
     Some [NewPlayer 7 ''Bob!!'' ''Bob'' ''0cc175b9c0f1b6a831c399e269772661'' 0] \<and>
   outcome (handle (gameServer\<lparr>newPlayers := Some []\<rparr>) bobConn) = Returned"
  by (simp add: gameServer_def handle_def bobConn_def sanitizeName_Bob drawID_def Let_def
      NewPlayer_def defaultName_def fingerprint_def)

end
